theory Spec2Isabelle
  imports Complex_Main
begin

section \<open>Numbers, strings and platform functions\<close>

text \<open>
  The TypeScript sources compute with JavaScript numbers. They are modelled as
  mathematical reals: rounding, NaN and the infinities are not part of this
  development, so every statement below is about the exact value of the
  formulas the code evaluates. The program computes in binary64, and it can
  differ from the exact value where rounding decides: the haversine term of the
  distance formula, at most 1 in exact arithmetic, rounds to
  1.0000000000000002 for some antipodal pairs such as (8, 0) and (-8, 180); the
  code does not clamp it, takes the square root of a negative number and returns
  NaN there. A \<^verbatim>\<open>Date\<close> is the whole number of milliseconds
  that \<^verbatim>\<open>getTime()\<close> reads. A value that may be \<^verbatim>\<open>null\<close> or \<^verbatim>\<open>undefined\<close> is an
  \<open>option\<close>. A call into the platform (Expo, React Native, storage) either
  returns or throws; what it does is an input of the model.
\<close>

datatype 'a outcome = Threw | Returned 'a

text \<open>
  \<^verbatim>\<open>Math.atan2(y, x)\<close>: the angle of the point \<open>(x, y)\<close>, in \<open>(-pi, pi]\<close>,
  with \<^verbatim>\<open>Math.atan2(0, 0) = 0\<close>.
\<close>

definition atan2 :: "real \<Rightarrow> real \<Rightarrow> real" where
  "atan2 y x =
     (if 0 < x then arctan (y / x)
      else if x < 0 then (if 0 \<le> y then arctan (y / x) + pi else arctan (y / x) - pi)
      else if 0 < y then pi / 2
      else if y < 0 then - (pi / 2)
      else 0)"

text \<open>\<^verbatim>\<open>a || d\<close> on strings: the empty string, \<^verbatim>\<open>null\<close> and \<^verbatim>\<open>undefined\<close> are falsy.\<close>

definition str_or :: "string option \<Rightarrow> string \<Rightarrow> string" where
  "str_or a d = (case a of None \<Rightarrow> d | Some s \<Rightarrow> if s = [] then d else s)"

definition str_or_opt :: "string option \<Rightarrow> string option \<Rightarrow> string option" where
  "str_or_opt a b = (case a of None \<Rightarrow> b | Some s \<Rightarrow> if s = [] then b else Some s)"

text \<open>\<^verbatim>\<open>x || undefined\<close> on a number: \<open>0\<close> and \<^verbatim>\<open>null\<close> are falsy.\<close>

definition num_or_undefined :: "real option \<Rightarrow> real option" where
  "num_or_undefined a = (case a of None \<Rightarrow> None | Some x \<Rightarrow> if x = 0 then None else Some x)"

text \<open>
  \<^verbatim>\<open>String.prototype.trim\<close>, on the ASCII white space and line terminators
  (TAB, LF, VT, FF, CR, SP). The source's \<^verbatim>\<open>trim\<close> also strips U+00A0 and the
  other Unicode white space, which these byte strings do not tell apart; only
  the text of a resolved address depends on it.
\<close>

definition isWhiteSpace :: "char \<Rightarrow> bool" where
  "isWhiteSpace c = (c \<in> set [CHR 0x09, CHR 0x0A, CHR 0x0B, CHR 0x0C, CHR 0x0D, CHR '' ''])"

definition trim :: "string \<Rightarrow> string" where
  "trim s = rev (dropWhile isWhiteSpace (rev (dropWhile isWhiteSpace s)))"

text \<open>\<^verbatim>\<open>Array.prototype.join\<close> on strings.\<close>

fun join :: "string \<Rightarrow> string list \<Rightarrow> string" where
  "join sep [] = []"
| "join sep [x] = x"
| "join sep (x # y # ys) = x @ sep @ join sep (y # ys)"

text \<open>A whole number inside a template literal prints in decimal.\<close>

fun digits10 :: "nat \<Rightarrow> string" where
  "digits10 n =
     (if n < 10 then [''0123456789'' ! n]
      else digits10 (n div 10) @ [''0123456789'' ! (n mod 10)])"

definition show_int :: "int \<Rightarrow> string" where
  "show_int i = (if i < 0 then CHR ''-'' # digits10 (nat (- i)) else digits10 (nat i))"

text \<open>
  \<^verbatim>\<open>Array.prototype.slice(start)\<close>: a negative \<open>start\<close> counts from the end, and
  the start index is clamped to the array.
\<close>

definition slice :: "int \<Rightarrow> 'a list \<Rightarrow> 'a list" where
  "slice start xs =
     (let len = int (length xs);
          k = (if start < 0 then max (len + start) 0 else min start len)
      in drop (nat k) xs)"

section \<open>Data model\<close>

record Coordinates =
  latitude :: real
  longitude :: real

record LocationData = Coordinates +
  accuracy :: "real option"
  timestamp :: int
  address :: "string option"

text \<open>\<^verbatim>\<open>location.coords\<close> as the platform delivers it.\<close>

record Coords =
  coords_latitude :: real
  coords_longitude :: real
  coords_accuracy :: "real option"

record GeocodedAddress =
  city :: "string option"
  district :: "string option"
  region :: "string option"
  country :: "string option"

record User =
  walletId :: "string option"
  user_id :: "string option"

datatype contact_type = family | friend | authority

record EmergencyContact =
  name :: string
  phone :: string
  relationship :: string
  contactType :: contact_type

datatype alert_type = sos | medical | security | geofence

datatype alert_status = sent | acknowledged | resolved

record AlertLocation =
  loc_latitude :: real
  loc_longitude :: real
  loc_address :: "string option"

record EmergencyAlert =
  alertId :: string
  alertType :: alert_type
  message :: string
  location :: AlertLocation
  alertTimestamp :: int
  status :: alert_status
  contacts :: "string list"

text \<open>The payload that \<^verbatim>\<open>sendEmergencyAlert\<close> builds and logs.\<close>

record Payload =
  touristId :: "string option"
  deviceId :: string
  payloadLocation :: AlertLocation
  payloadMessage :: string
  payloadType :: alert_type
  payloadTimestamp :: int

text \<open>One constructor for each place of the two services that writes to the console.\<close>

datatype console_entry =
    LocationPermissionDenied
  | BackgroundPermissionDenied
  | ErrorRequestingPermissions
  | ErrorGettingAddress
  | ErrorGettingCurrentLocation
  | NoUserOrToken
  | SendingEmergencyAlert Payload
  | ErrorSendingEmergencyAlert
  | ErrorNotifyingContacts
  | ErrorTriggeringPanicAlert
  | ErrorCheckingGeofence

text \<open>
  What the platform answers during one call: the permission requests
  (\<open>True\<close> for \<^verbatim>\<open>'granted'\<close>), the position fetch, the reverse geocoder, the haptic
  engine (\<open>False\<close>: the call rejects), \<^verbatim>\<open>Alert.alert\<close> (\<open>False\<close>: it throws), the
  key-value storage, and the clock at the three places that read it.
\<close>

record env =
  foregroundStatus :: "bool outcome"
  backgroundStatus :: "bool outcome"
  currentPosition :: "Coords outcome"
  reverseGeocode :: "GeocodedAddress list outcome"
  hapticsOk :: bool
  dialogOk :: bool
  storedUser :: "User option outcome"
  storedToken :: "string option outcome"
  fixTime :: int
  idTime :: int
  alertTime :: int

section \<open>LocationService (services/location.ts)\<close>

record LocationService =
  watchId :: "nat option"
  isTracking :: bool
  locationHistory :: "LocationData list"

definition initialLocationService :: LocationService where
  "initialLocationService = \<lparr>watchId = None, isTracking = False, locationHistory = []\<rparr>"

text \<open>\<^verbatim>\<open>requestPermissions()\<close>, with the lines it writes to the console.\<close>

definition requestPermissions :: "env \<Rightarrow> bool \<times> console_entry list" where
  "requestPermissions e =
     (case foregroundStatus e of
        Threw \<Rightarrow> (False, [ErrorRequestingPermissions])
      | Returned granted \<Rightarrow>
          if \<not> granted then (False, [LocationPermissionDenied])
          else (case backgroundStatus e of
                  Threw \<Rightarrow> (False, [ErrorRequestingPermissions])
                | Returned bg \<Rightarrow> (True, if \<not> bg then [BackgroundPermissionDenied] else [])))"

definition formatAddress :: "GeocodedAddress \<Rightarrow> string" where
  "formatAddress addr =
     trim (str_or (str_or_opt (city addr) (district addr)) [] @ '', '' @
           str_or (region addr) [] @ '', '' @ str_or (country addr) [])"

text \<open>\<^verbatim>\<open>getCurrentLocation()\<close>: \<open>None\<close> is the source's \<^verbatim>\<open>null\<close>.\<close>

definition getCurrentLocation :: "env \<Rightarrow> LocationData option \<times> console_entry list" where
  "getCurrentLocation e =
     (case requestPermissions e of
        (False, out) \<Rightarrow> (None, out)
      | (True, out) \<Rightarrow>
          (case currentPosition e of
             Threw \<Rightarrow> (None, out @ [ErrorGettingCurrentLocation])
           | Returned c \<Rightarrow>
               let locationData =
                     \<lparr>latitude = coords_latitude c, longitude = coords_longitude c,
                      accuracy = num_or_undefined (coords_accuracy c),
                      timestamp = fixTime e, address = None\<rparr>
               in (case reverseGeocode e of
                     Threw \<Rightarrow> (Some locationData, out @ [ErrorGettingAddress])
                   | Returned [] \<Rightarrow> (Some locationData, out)
                   | Returned (addr # _) \<Rightarrow>
                       (Some (locationData\<lparr>address := Some (formatAddress addr)\<rparr>), out))))"

text \<open>
  The callback that \<^verbatim>\<open>startTracking\<close> hands to \<^verbatim>\<open>watchPositionAsync\<close>: it
  builds the fix, pushes it on the history and keeps the last 50. The fix is
  returned for the caller's \<^verbatim>\<open>callback\<close> and for \<^verbatim>\<open>sendLocationUpdate\<close>, which
  touch no field of the service.
\<close>

definition onPosition :: "Coords \<Rightarrow> int \<Rightarrow> LocationService \<Rightarrow> LocationData \<times> LocationService" where
  "onPosition c now svc =
     (let locationData =
            \<lparr>latitude = coords_latitude c, longitude = coords_longitude c,
             accuracy = num_or_undefined (coords_accuracy c),
             timestamp = now, address = None\<rparr>;
          pushed = locationHistory svc @ [locationData]
      in (locationData,
          svc\<lparr>locationHistory := (if length pushed > 50 then slice (- 50) pushed else pushed)\<rparr>))"

text \<open>The service after a stream of positions, each with its arrival time.\<close>

fun deliver :: "(Coords \<times> int) list \<Rightarrow> LocationService \<Rightarrow> LocationService" where
  "deliver [] svc = svc"
| "deliver ((c, now) # rest) svc = deliver rest (snd (onPosition c now svc))"

definition getLocationHistory :: "LocationService \<Rightarrow> LocationData list" where
  "getLocationHistory svc = locationHistory svc"

text \<open>
  \<^verbatim>\<open>calculateDistance(loc1, loc2)\<close>: the haversine formula with
  \<^verbatim>\<open>R = 6371e3\<close>; the names are the source's local constants. This is the
  exact value of the formula; in binary64 \<open>a\<close> can round above 1, and then
  \<^verbatim>\<open>Math.sqrt(1 - a)\<close> and the result are NaN.
\<close>

definition calculateDistance :: "LocationData \<Rightarrow> LocationData \<Rightarrow> real" where
  "calculateDistance loc1 loc2 =
     (let R = 6371000;
          phi1 = (latitude loc1 * pi) / 180;
          phi2 = (latitude loc2 * pi) / 180;
          dphi = ((latitude loc2 - latitude loc1) * pi) / 180;
          dlam = ((longitude loc2 - longitude loc1) * pi) / 180;
          a = sin (dphi / 2) * sin (dphi / 2) +
              cos phi1 * cos phi2 * sin (dlam / 2) * sin (dlam / 2);
          c = 2 * atan2 (sqrt a) (sqrt (1 - a))
      in R * c)"

text \<open>
  \<^verbatim>\<open>calculateSpeed(loc1, loc2)\<close>:
  \<^verbatim>\<open>timeDiff > 0 ? distance / timeDiff : 0\<close>, with \<open>timeDiff\<close> in seconds.
\<close>

definition calculateSpeed :: "LocationData \<Rightarrow> LocationData \<Rightarrow> real" where
  "calculateSpeed loc1 loc2 =
     (let distance = calculateDistance loc1 loc2;
          timeDiff = real_of_int (timestamp loc2 - timestamp loc1) / 1000
      in if timeDiff > 0 then distance / timeDiff else 0)"

section \<open>EmergencyService (services/emergency.ts)\<close>

text \<open>
  The two fields of the class, and what a run leaves on the device: the
  dialogs that \<^verbatim>\<open>Alert.alert\<close> has shown (title and message, oldest first) and
  the console. The vibration of a haptic call is not recorded; whether the call
  rejects is.
\<close>

record EmergencyService =
  emergencyContacts :: "EmergencyContact list"
  alertHistory :: "EmergencyAlert list"
  dialogs :: "(string \<times> string) list"
  console :: "console_entry list"

definition initialEmergencyService :: EmergencyService where
  "initialEmergencyService =
     \<lparr>emergencyContacts =
        [\<lparr>name = ''Local Police'', phone = ''100'', relationship = ''Authority'',
          contactType = authority\<rparr>,
         \<lparr>name = ''Tourist Helpline'', phone = ''1363'', relationship = ''Authority'',
          contactType = authority\<rparr>,
         \<lparr>name = ''Medical Emergency'', phone = ''108'', relationship = ''Authority'',
          contactType = authority\<rparr>],
      alertHistory = [], dialogs = [], console = []\<rparr>"

definition showDialog :: "string \<times> string \<Rightarrow> EmergencyService \<Rightarrow> EmergencyService" where
  "showDialog d s = s\<lparr>dialogs := dialogs s @ [d]\<rparr>"

definition writeConsole :: "console_entry list \<Rightarrow> EmergencyService \<Rightarrow> EmergencyService" where
  "writeConsole out s = s\<lparr>console := console s @ out\<rparr>"

text \<open>\<^verbatim>\<open>sendEmergencyAlert(alert)\<close>: every failure inside is caught and logged.\<close>

definition sendEmergencyAlert :: "env \<Rightarrow> EmergencyAlert \<Rightarrow> EmergencyService \<Rightarrow> EmergencyService" where
  "sendEmergencyAlert e alert s =
     (case storedUser e of
        Threw \<Rightarrow> writeConsole [ErrorSendingEmergencyAlert] s
      | Returned user \<Rightarrow>
          (case storedToken e of
             Threw \<Rightarrow> writeConsole [ErrorSendingEmergencyAlert] s
           | Returned token \<Rightarrow>
               (case user of
                  None \<Rightarrow> writeConsole [NoUserOrToken] s
                | Some u \<Rightarrow>
                    if str_or token [] = [] then writeConsole [NoUserOrToken] s
                    else writeConsole
                           [SendingEmergencyAlert
                              \<lparr>touristId = str_or_opt (walletId u) (user_id u),
                               deviceId = ''mobile-app'',
                               payloadLocation = location alert,
                               payloadMessage = message alert,
                               payloadType = alertType alert,
                               payloadTimestamp = alertTimestamp alert\<rparr>] s)))"

definition contactsDialog :: "EmergencyContact list \<Rightarrow> EmergencyAlert \<Rightarrow> string \<times> string" where
  "contactsDialog cs alert =
     (let contactList = join [CHR 0x0A] (map (\<lambda>c. name c @ '': '' @ phone c) cs)
      in (''Emergency Alert Sent'',
          ''Your emergency alert has been sent to:'' @ [CHR 0x0A, CHR 0x0A] @ contactList @
          [CHR 0x0A, CHR 0x0A] @ ''Location: '' @
          str_or (loc_address (location alert)) ''Current Location'' @
          [CHR 0x0A, CHR 0x0A] @ ''Help is on the way. Stay calm and stay visible.''))"

text \<open>\<^verbatim>\<open>notifyEmergencyContacts(alert)\<close>: a dialog, or a console line when it throws.\<close>

definition notifyEmergencyContacts :: "env \<Rightarrow> EmergencyAlert \<Rightarrow> EmergencyService \<Rightarrow> EmergencyService" where
  "notifyEmergencyContacts e alert s =
     (if dialogOk e then showDialog (contactsDialog (emergencyContacts s) alert) s
      else writeConsole [ErrorNotifyingContacts] s)"

definition locationErrorDialog :: "string \<times> string" where
  "locationErrorDialog = (''Error'', ''Unable to get your current location for emergency alert'')"

text \<open>
  \<^verbatim>\<open>triggerPanicAlert(message?)\<close>: the returned Boolean and the service after
  the call. Everything is inside one \<^verbatim>\<open>try\<close>; the \<^verbatim>\<open>catch\<close> logs and returns
  \<^verbatim>\<open>false\<close>.
\<close>

definition triggerPanicAlert :: "string option \<Rightarrow> env \<Rightarrow> EmergencyService \<Rightarrow> bool \<times> EmergencyService" where
  "triggerPanicAlert msg e s =
     (if \<not> hapticsOk e then (False, writeConsole [ErrorTriggeringPanicAlert] s)
      else (case getCurrentLocation e of
              (None, out) \<Rightarrow>
                if dialogOk e then (False, showDialog locationErrorDialog (writeConsole out s))
                else (False, writeConsole (out @ [ErrorTriggeringPanicAlert]) s)
            | (Some loc, out) \<Rightarrow>
                let alert =
                      \<lparr>alertId = ''EMERGENCY-'' @ show_int (idTime e),
                       alertType = sos,
                       message = str_or msg ''Emergency assistance required'',
                       location = \<lparr>loc_latitude = latitude loc, loc_longitude = longitude loc,
                                   loc_address = address loc\<rparr>,
                       alertTimestamp = alertTime e,
                       status = sent,
                       contacts = map phone (emergencyContacts s)\<rparr>;
                    s1 = writeConsole out s;
                    s2 = s1\<lparr>alertHistory := alert # alertHistory s1\<rparr>;
                    s3 = sendEmergencyAlert e alert s2;
                    s4 = notifyEmergencyContacts e alert s3
                in (True, s4)))"

definition getAlertHistory :: "EmergencyService \<Rightarrow> EmergencyAlert list" where
  "getAlertHistory s = alertHistory s"

text \<open>The zones of \<^verbatim>\<open>checkGeofenceViolation\<close>, in the order of the source.\<close>

record RestrictedArea =
  lat :: real
  lng :: real
  radius :: real
  areaName :: string

definition restrictedAreas :: "RestrictedArea list" where
  "restrictedAreas =
     [\<lparr>lat = 25.5788, lng = 91.8933, radius = 1000, areaName = ''Restricted Military Zone''\<rparr>,
      \<lparr>lat = 25.4670, lng = 91.3662, radius = 500, areaName = ''Protected Forest Area''\<rparr>]"

text \<open>The private \<^verbatim>\<open>calculateDistance\<close> of the emergency service.\<close>

definition calculateDistance_emergency :: "Coordinates \<Rightarrow> Coordinates \<Rightarrow> real" where
  "calculateDistance_emergency loc1 loc2 =
     (let R = 6371000;
          phi1 = (latitude loc1 * pi) / 180;
          phi2 = (latitude loc2 * pi) / 180;
          dphi = ((latitude loc2 - latitude loc1) * pi) / 180;
          dlam = ((longitude loc2 - longitude loc1) * pi) / 180;
          a = sin (dphi / 2) * sin (dphi / 2) +
              cos phi1 * cos phi2 * sin (dlam / 2) * sin (dlam / 2);
          c = 2 * atan2 (sqrt a) (sqrt (1 - a))
      in R * c)"

definition geofenceDialog :: "string \<Rightarrow> string \<times> string" where
  "geofenceDialog area =
     (''Geofence Alert'',
      ''You are approaching a restricted area: '' @ area @
      ''. Please maintain safe distance and follow local guidelines.'')"

text \<open>
  \<^verbatim>\<open>triggerGeofenceAlert(areaName, location)\<close>: the awaited haptic call, then the
  dialog; either may throw, and then nothing has been shown.
\<close>

definition triggerGeofenceAlert :: "env \<Rightarrow> string \<Rightarrow> LocationData \<Rightarrow> EmergencyService \<Rightarrow> EmergencyService outcome" where
  "triggerGeofenceAlert e area loc s =
     (if \<not> hapticsOk e then Threw
      else if \<not> dialogOk e then Threw
      else Returned (showDialog (geofenceDialog area) s))"

text \<open>
  The \<^verbatim>\<open>for\<close> loop of \<^verbatim>\<open>checkGeofenceViolation\<close> over the areas that are left:
  the first area within its radius raises the alert and ends the loop.
\<close>

fun checkAreas :: "env \<Rightarrow> LocationData \<Rightarrow> RestrictedArea list \<Rightarrow> EmergencyService \<Rightarrow> (bool \<times> EmergencyService) outcome" where
  "checkAreas e loc [] s = Returned (False, s)"
| "checkAreas e loc (area # rest) s =
     (let distance = calculateDistance_emergency
                       \<lparr>latitude = latitude loc, longitude = longitude loc\<rparr>
                       \<lparr>latitude = lat area, longitude = lng area\<rparr>
      in if distance \<le> radius area
         then (case triggerGeofenceAlert e (areaName area) loc s of
                 Threw \<Rightarrow> Threw
               | Returned s' \<Rightarrow> Returned (True, s'))
         else checkAreas e loc rest s)"

text \<open>The body of \<^verbatim>\<open>checkGeofenceViolation\<close> for a given list of areas.\<close>

definition checkGeofenceViolation_areas :: "RestrictedArea list \<Rightarrow> env \<Rightarrow> LocationData \<Rightarrow> EmergencyService \<Rightarrow> bool \<times> EmergencyService" where
  "checkGeofenceViolation_areas areas e loc s =
     (case checkAreas e loc areas s of
        Threw \<Rightarrow> (False, writeConsole [ErrorCheckingGeofence] s)
      | Returned r \<Rightarrow> r)"

definition checkGeofenceViolation :: "env \<Rightarrow> LocationData \<Rightarrow> EmergencyService \<Rightarrow> bool \<times> EmergencyService" where
  "checkGeofenceViolation e loc s = checkGeofenceViolation_areas restrictedAreas e loc s"

section \<open>The Safety screen: the panic button\<close>

text \<open>
  The React state of the component, the \<^verbatim>\<open>countdownRef\<close>, and what the
  component has handed to the event loop: the intervals that are still
  scheduled, each with the \<^verbatim>\<open>count\<close> of its closure, and the number of
  \<^verbatim>\<open>triggerEmergency\<close> calls suspended at
  \<^verbatim>\<open>await EmergencyService.triggerPanicAlert(...)\<close>. Timer handles are
  objects (\<^verbatim>\<open>NodeJS.Timeout\<close>), so a handle is always truthy, and
  \<^verbatim>\<open>clearTimeout\<close> clears an interval as \<^verbatim>\<open>clearInterval\<close> does.
\<close>

record Safety =
  emergencyActive :: bool
  panicPressed :: bool
  countdown :: int
  countdownRef :: "nat option"
  intervals :: "(nat \<times> int) list"
  nextHandle :: nat
  awaiting :: nat
  emergency :: EmergencyService

definition initialSafety :: Safety where
  "initialSafety =
     \<lparr>emergencyActive = False, panicPressed = False, countdown = 0, countdownRef = None,
      intervals = [], nextHandle = 1, awaiting = 0, emergency = initialEmergencyService\<rparr>"

datatype PanicState = Idle | CountingDown int | Active

text \<open>The state as the button renders it.\<close>

definition panicState :: "Safety \<Rightarrow> PanicState" where
  "panicState s =
     (if emergencyActive s then Active
      else if panicPressed s then CountingDown (countdown s)
      else Idle)"

definition clearTimer :: "nat \<Rightarrow> Safety \<Rightarrow> Safety" where
  "clearTimer h s = s\<lparr>intervals := filter (\<lambda>t. fst t \<noteq> h) (intervals s)\<rparr>"

definition startPanicSequence :: "Safety \<Rightarrow> Safety" where
  "startPanicSequence s =
     (let countdownInterval = nextHandle s
      in s\<lparr>panicPressed := True, countdown := 3,
           intervals := intervals s @ [(countdownInterval, 3)],
           nextHandle := Suc countdownInterval,
           countdownRef := Some countdownInterval\<rparr>)"

definition cancelPanicSequence :: "Safety \<Rightarrow> Safety" where
  "cancelPanicSequence s =
     (let s1 = (case countdownRef s of
                  None \<Rightarrow> s
                | Some h \<Rightarrow> (clearTimer h s)\<lparr>countdownRef := None\<rparr>)
      in s1\<lparr>panicPressed := False, countdown := 0\<rparr>)"

text \<open>\<^verbatim>\<open>triggerEmergency\<close> up to its \<^verbatim>\<open>await\<close>.\<close>

definition triggerEmergency :: "Safety \<Rightarrow> Safety" where
  "triggerEmergency s = s\<lparr>emergencyActive := True, panicPressed := False, awaiting := Suc (awaiting s)\<rparr>"

definition sendFailedDialog :: "string \<times> string" where
  "sendFailedDialog =
     (''Error'',
      ''Failed to send emergency alert. Please try calling emergency services directly.'')"

text \<open>
  \<^verbatim>\<open>triggerEmergency\<close> from its \<^verbatim>\<open>await\<close> on, for one suspended call: the
  alert manager runs, and a \<^verbatim>\<open>false\<close> from it takes \<^verbatim>\<open>emergencyActive\<close> back.
  On \<^verbatim>\<open>true\<close> the source schedules a dialog guarded by the \<^verbatim>\<open>emergencyActive\<close>
  of the render that created the closure, in which the button still started
  the sequence, so the guard is false and nothing is shown.
\<close>

definition triggerEmergency_resume :: "env \<Rightarrow> Safety \<Rightarrow> Safety" where
  "triggerEmergency_resume e s =
     (if awaiting s = 0 then s
      else (case triggerPanicAlert (Some ''Emergency assistance required - Panic button activated'')
                   e (emergency s) of
              (success, em) \<Rightarrow>
                let s1 = s\<lparr>awaiting := awaiting s - 1, emergency := em\<rparr>
                in if success then s1
                   else s1\<lparr>emergencyActive := False,
                           emergency := (if dialogOk e then showDialog sendFailedDialog em else em)\<rparr>))"

text \<open>One firing of the interval with handle \<open>h\<close>; a cleared interval does not fire.\<close>

definition tick :: "nat \<Rightarrow> Safety \<Rightarrow> Safety" where
  "tick h s =
     (case map_of (intervals s) h of
        None \<Rightarrow> s
      | Some c \<Rightarrow>
          let count = c - 1;
              s1 = s\<lparr>intervals := map (\<lambda>t. if fst t = h then (h, count) else t) (intervals s),
                     countdown := count\<rparr>
          in if count \<le> 0 then triggerEmergency (clearTimer h s1) else s1)"

definition cancelEmergency :: "Safety \<Rightarrow> Safety" where
  "cancelEmergency s =
     (let s1 = s\<lparr>emergencyActive := False, panicPressed := False, countdown := 0\<rparr>
      in case countdownRef s1 of
           None \<Rightarrow> s1
         | Some h \<Rightarrow> (clearTimer h s1)\<lparr>countdownRef := None\<rparr>)"

text \<open>The two handlers of the button, as the render binds them.\<close>

definition onPress :: "Safety \<Rightarrow> Safety" where
  "onPress s = (if emergencyActive s then cancelEmergency s else startPanicSequence s)"

definition onPressOut :: "Safety \<Rightarrow> Safety" where
  "onPressOut s = (if panicPressed s \<and> \<not> emergencyActive s then cancelPanicSequence s else s)"

text \<open>The cleanup of the effect, at teardown.\<close>

definition unmount :: "Safety \<Rightarrow> Safety" where
  "unmount s = (case countdownRef s of None \<Rightarrow> s | Some h \<Rightarrow> clearTimer h s)"

section \<open>Auxiliary definitions for the statements\<close>

text \<open>The haversine term \<open>a\<close> as a function of the four angles in degrees.\<close>

definition hav_a :: "real \<Rightarrow> real \<Rightarrow> real \<Rightarrow> real \<Rightarrow> real" where
  "hav_a lat1 lon1 lat2 lon2 =
     sin ((((lat2 - lat1) * pi) / 180) / 2) * sin ((((lat2 - lat1) * pi) / 180) / 2) +
     cos ((lat1 * pi) / 180) * cos ((lat2 * pi) / 180) *
       sin ((((lon2 - lon1) * pi) / 180) / 2) * sin ((((lon2 - lon1) * pi) / 180) / 2)"

text \<open>The fix that \<open>onPosition\<close> builds from a position and its arrival time.\<close>

definition fixOf :: "Coords \<times> int \<Rightarrow> LocationData" where
  "fixOf p =
     \<lparr>latitude = coords_latitude (fst p), longitude = coords_longitude (fst p),
      accuracy = num_or_undefined (coords_accuracy (fst p)),
      timestamp = snd p, address = None\<rparr>"

text \<open>Two fixes half the globe and two seconds apart.\<close>

definition equatorFix :: LocationData where
  "equatorFix = \<lparr>latitude = 0, longitude = 0, accuracy = None, timestamp = 0, address = None\<rparr>"

definition antipodeFix :: LocationData where
  "antipodeFix = \<lparr>latitude = 0, longitude = 180, accuracy = None, timestamp = 2000, address = None\<rparr>"

text \<open>A fix is inside an area when the loop's test holds for it.\<close>

definition inside :: "LocationData \<Rightarrow> RestrictedArea \<Rightarrow> bool" where
  "inside loc area =
     (calculateDistance_emergency
        \<lparr>latitude = latitude loc, longitude = longitude loc\<rparr>
        \<lparr>latitude = lat area, longitude = lng area\<rparr> \<le> radius area)"

definition violated :: "LocationData \<Rightarrow> bool" where
  "violated loc = list_ex (inside loc) restrictedAreas"

text \<open>The geofence alerts among the dialogs shown so far.\<close>

definition geofenceAlerts :: "EmergencyService \<Rightarrow> (string \<times> string) list" where
  "geofenceAlerts s = filter (\<lambda>d. fst d = ''Geofence Alert'') (dialogs s)"

text \<open>The geofence check run on each fix of a sequence in turn.\<close>

fun checkAll :: "env \<Rightarrow> LocationData list \<Rightarrow> EmergencyService \<Rightarrow> EmergencyService" where
  "checkAll e [] s = s"
| "checkAll e (loc # rest) s = checkAll e rest (snd (checkGeofenceViolation e loc s))"

text \<open>The alert that \<open>triggerPanicAlert\<close> builds from a fix.\<close>

definition panicAlert :: "string option \<Rightarrow> env \<Rightarrow> LocationData \<Rightarrow> EmergencyService \<Rightarrow> EmergencyAlert" where
  "panicAlert msg e loc s =
     \<lparr>alertId = ''EMERGENCY-'' @ show_int (idTime e),
      alertType = sos,
      message = str_or msg ''Emergency assistance required'',
      location = \<lparr>loc_latitude = latitude loc, loc_longitude = longitude loc,
                  loc_address = address loc\<rparr>,
      alertTimestamp = alertTime e,
      status = sent,
      contacts = map phone (emergencyContacts s)\<rparr>"

text \<open>
  Concrete inputs: the centre of the first zone; a fix a quarter of the globe
  south of it; a platform on which every call succeeds, and the fix it yields;
  one whose haptic call rejects; one that refuses the location permission; one
  whose storage and dialog throw.
\<close>

definition zoneCentre :: LocationData where
  "zoneCentre =
     \<lparr>latitude = 25.5788, longitude = 91.8933, accuracy = None, timestamp = 0, address = None\<rparr>"

definition farFix :: LocationData where
  "farFix =
     \<lparr>latitude = - 64.4212, longitude = 91.8933, accuracy = None, timestamp = 0, address = None\<rparr>"

definition workingEnv :: env where
  "workingEnv =
     \<lparr>foregroundStatus = Returned True, backgroundStatus = Returned True,
      currentPosition =
        Returned \<lparr>coords_latitude = 25.5788, coords_longitude = 91.8933, coords_accuracy = Some 5\<rparr>,
      reverseGeocode = Returned [],
      hapticsOk = True, dialogOk = True,
      storedUser = Returned (Some \<lparr>walletId = Some ''w1'', user_id = None\<rparr>),
      storedToken = Returned (Some ''t''),
      fixTime = 1000, idTime = 1001, alertTime = 1002\<rparr>"

definition workingFix :: LocationData where
  "workingFix =
     \<lparr>latitude = 25.5788, longitude = 91.8933, accuracy = Some 5, timestamp = 1000, address = None\<rparr>"

definition rejectingHapticsEnv :: env where
  "rejectingHapticsEnv = workingEnv\<lparr>hapticsOk := False\<rparr>"

definition deniedEnv :: env where
  "deniedEnv = workingEnv\<lparr>foregroundStatus := Returned False\<rparr>"

definition failingDispatchEnv :: env where
  "failingDispatchEnv = workingEnv\<lparr>storedUser := Threw, dialogOk := False\<rparr>"

text \<open>The screen after a press and one tick of the interval, from the initial state.\<close>

definition countingDown2 :: Safety where
  "countingDown2 = tick 1 (onPress initialSafety)"

section \<open>Properties of the distance formula\<close>

lemma calculateDistance_hav:
  "calculateDistance p q =
     6371000 * (2 * atan2 (sqrt (hav_a (latitude p) (longitude p) (latitude q) (longitude q)))
                          (sqrt (1 - hav_a (latitude p) (longitude p) (latitude q) (longitude q))))"
  by (simp add: calculateDistance_def hav_a_def Let_def)

lemma cos_times_cos:
  fixes u v :: real
  shows "cos (u - v) * cos (u + v) = (cos u)\<^sup>2 - (sin v)\<^sup>2"
proof -
  have su: "(sin u)\<^sup>2 = 1 - (cos u)\<^sup>2"
    by (simp add: sin_squared_eq)
  have cv: "(cos v)\<^sup>2 = 1 - (sin v)\<^sup>2"
    by (simp add: cos_squared_eq)
  have "cos (u - v) * cos (u + v) = (cos u)\<^sup>2 * (cos v)\<^sup>2 - (sin u)\<^sup>2 * (sin v)\<^sup>2"
    by (simp add: cos_add cos_diff algebra_simps power2_eq_square)
  also have "\<dots> = (cos u)\<^sup>2 - (sin v)\<^sup>2"
    unfolding su cv by (simp add: algebra_simps)
  finally show ?thesis .
qed

lemma hav_a_convex:
  "hav_a lat1 lon1 lat2 lon2 =
     (1 - (sin ((lon2 - lon1) * pi / 360))\<^sup>2) * (sin ((lat2 - lat1) * pi / 360))\<^sup>2 +
     (sin ((lon2 - lon1) * pi / 360))\<^sup>2 * (cos ((lat1 + lat2) * pi / 360))\<^sup>2"
proof -
  define u where "u = (lat1 + lat2) * pi / 360"
  define v where "v = (lat2 - lat1) * pi / 360"
  define s where "s = (sin ((lon2 - lon1) * pi / 360))\<^sup>2"
  have p1: "lat1 * pi / 180 = u - v" and p2: "lat2 * pi / 180 = u + v"
    by (simp_all add: u_def v_def field_simps)
  have cc: "cos (lat1 * pi / 180) * cos (lat2 * pi / 180) = (cos u)\<^sup>2 - (sin v)\<^sup>2"
    unfolding p1 p2 by (rule cos_times_cos)
  have "hav_a lat1 lon1 lat2 lon2 =
          (sin v)\<^sup>2 + cos (lat1 * pi / 180) * cos (lat2 * pi / 180) * s"
    by (simp add: hav_a_def v_def s_def power2_eq_square algebra_simps)
  also have "\<dots> = (1 - s) * (sin v)\<^sup>2 + s * (cos u)\<^sup>2"
    unfolding cc by (simp add: algebra_simps)
  finally show ?thesis
    by (simp add: u_def v_def s_def)
qed

lemma hav_a_nonneg: "0 \<le> hav_a lat1 lon1 lat2 lon2"
proof -
  have "0 \<le> 1 - (sin ((lon2 - lon1) * pi / 360))\<^sup>2"
    by (simp add: abs_square_le_1)
  then show ?thesis
    unfolding hav_a_convex by (intro add_nonneg_nonneg mult_nonneg_nonneg) simp_all
qed

lemma hav_a_le_one: "hav_a lat1 lon1 lat2 lon2 \<le> 1"
proof -
  define s where "s = (sin ((lon2 - lon1) * pi / 360))\<^sup>2"
  define x where "x = (sin ((lat2 - lat1) * pi / 360))\<^sup>2"
  define y where "y = (cos ((lat1 + lat2) * pi / 360))\<^sup>2"
  have s: "0 \<le> s" "s \<le> 1" and x: "x \<le> 1" and y: "y \<le> 1"
    by (simp_all add: s_def x_def y_def abs_square_le_1)
  have "(1 - s) * x \<le> (1 - s) * 1" and "s * y \<le> s * 1"
    using s x y by (intro mult_left_mono; simp)+
  then have "(1 - s) * x + s * y \<le> 1"
    by simp
  then show ?thesis
    unfolding hav_a_convex s_def x_def y_def .
qed

lemma hav_a_sym: "hav_a lat1 lon1 lat2 lon2 = hav_a lat2 lon2 lat1 lon1"
proof -
  have m: "sin (((x - y) * pi / 180) / 2) * sin (((x - y) * pi / 180) / 2) =
           sin (((y - x) * pi / 180) / 2) * sin (((y - x) * pi / 180) / 2)" for x y :: real
  proof -
    have "((x - y) * pi / 180) / 2 = - (((y - x) * pi / 180) / 2)"
      by (simp add: field_simps)
    then have "sin (((x - y) * pi / 180) / 2) = - sin (((y - x) * pi / 180) / 2)"
      by (simp only: sin_minus)
    then show ?thesis
      by simp
  qed
  show ?thesis
    unfolding hav_a_def using m [of lat2 lat1] m [of lon2 lon1]
    by (simp add: mult.assoc mult.left_commute)
qed

lemma hav_a_same: "hav_a la lo la lo = 0"
  by (simp add: hav_a_def)

lemma atan2_nonneg: "0 \<le> y \<Longrightarrow> 0 \<le> x \<Longrightarrow> 0 \<le> atan2 y x"
  by (simp add: atan2_def)

lemma calculateDistance_same: "calculateDistance p p = 0"
  by (simp add: calculateDistance_hav hav_a_same atan2_def)

lemma calculateDistance_sym: "calculateDistance p q = calculateDistance q p"
  by (simp add: calculateDistance_hav hav_a_sym [of "latitude p" "longitude p"])

lemma calculateDistance_nonneg: "0 \<le> calculateDistance p q"
  unfolding calculateDistance_hav
  by (intro mult_nonneg_nonneg atan2_nonneg) (simp_all add: hav_a_nonneg hav_a_le_one)

lemma atan2_arcsin:
  assumes "0 \<le> a" "a \<le> 1"
  shows "atan2 (sqrt a) (sqrt (1 - a)) = arcsin (sqrt a)"
proof (cases "a = 1")
  case True
  then show ?thesis by (simp add: atan2_def)
next
  case False
  with assms have lt: "a < 1" by simp
  then have pos: "0 < sqrt (1 - a)" by simp
  have "sqrt a < 1" using lt assms by (simp add: real_sqrt_lt_1_iff)
  moreover have "- 1 < sqrt a" using assms by (smt (verit) real_sqrt_ge_zero)
  ultimately have "arcsin (sqrt a) = arctan (sqrt a / sqrt (1 - (sqrt a)\<^sup>2))"
    by (rule arcsin_arctan [rotated])
  also have "(sqrt a)\<^sup>2 = a" using assms by simp
  finally show ?thesis using pos by (simp add: atan2_def)
qed

lemma calculateDistance_arcsin:
  "calculateDistance p q =
     2 * 6371000 * arcsin (sqrt (hav_a (latitude p) (longitude p) (latitude q) (longitude q)))"
  by (simp add: calculateDistance_hav atan2_arcsin hav_a_nonneg hav_a_le_one)

text \<open>
  In exact arithmetic the distance of a fix to itself is 0, the distance is
  symmetric and never negative, and it is the haversine great-circle distance on a
  sphere of radius 6,371,000 m: twice the radius times the arc sine of the root of
  the haversine term. The formula is the right one; what the program lacks is the
  clamp of the haversine term to 1, so that in binary64 the last two properties
  fail at the antipodal pairs where the term rounds above 1.
\<close>

lemma distance_algebra_exact:
  "calculateDistance p p = 0 \<and>
   calculateDistance a b = calculateDistance b a \<and>
   0 \<le> calculateDistance a b \<and>
   calculateDistance a b =
     2 * 6371000 * arcsin (sqrt (hav_a (latitude a) (longitude a) (latitude b) (longitude b)))"
  using calculateDistance_sym [of a b] calculateDistance_arcsin [of a b]
  by (simp add: calculateDistance_same calculateDistance_nonneg)

section \<open>Speed\<close>

text \<open>
  C9. The speed between two fixes is 0 whenever the second is not later than the
  first; otherwise it is the distance divided by the elapsed seconds, which are
  then positive. So the division never has a zero or negative divisor.
\<close>

theorem calculateSpeed_guard:
  "(timestamp b \<le> timestamp a \<longrightarrow> calculateSpeed a b = 0) \<and>
   (timestamp a < timestamp b \<longrightarrow>
      0 < real_of_int (timestamp b - timestamp a) / 1000 \<and>
      calculateSpeed a b =
        calculateDistance a b / (real_of_int (timestamp b - timestamp a) / 1000))"
  by (simp add: calculateSpeed_def Let_def)

theorem calculateSpeed_guard_witness:
  "timestamp equatorFix < timestamp antipodeFix \<and>
   calculateSpeed equatorFix antipodeFix = 6371000 * pi / 2 \<and>
   calculateSpeed antipodeFix equatorFix = 0"
  using calculateSpeed_guard [of antipodeFix equatorFix]
        calculateSpeed_guard [of equatorFix antipodeFix]
  by (simp add: equatorFix_def antipodeFix_def calculateDistance_def atan2_def)

section \<open>The bounded location history\<close>

lemma slice_last: "slice (- 50) xs = drop (length xs - 50) xs"
  by (simp add: slice_def Let_def max_def nat_diff_distrib')

lemma onPosition_fix: "fst (onPosition c now svc) = fixOf (c, now)"
  by (simp add: onPosition_def fixOf_def Let_def)

lemma onPosition_history:
  "locationHistory (snd (onPosition c now svc)) =
     drop (Suc (length (locationHistory svc)) - 50) (locationHistory svc @ [fixOf (c, now)])"
  by (simp add: onPosition_def fixOf_def Let_def slice_last)

lemma onPosition_bounded: "length (locationHistory (snd (onPosition c now svc))) \<le> 50"
  by (simp add: onPosition_history)

lemma deliver_history:
  "locationHistory (deliver ps svc) =
     drop (length (locationHistory svc) + length ps - 50) (locationHistory svc @ map fixOf ps)"
  if "length (locationHistory svc) \<le> 50"
  using that
proof (induction ps arbitrary: svc)
  case Nil
  then show ?case by simp
next
  case (Cons p rest)
  obtain c now where p: "p = (c, now)" by (cases p)
  let ?h = "locationHistory svc"
  let ?svc' = "snd (onPosition c now svc)"
  have h': "locationHistory ?svc' = drop (Suc (length ?h) - 50) (?h @ [fixOf p])"
    by (simp add: onPosition_history p)
  have len: "length (locationHistory ?svc') \<le> 50"
    by (rule onPosition_bounded)
  have "locationHistory (deliver (p # rest) svc) = locationHistory (deliver rest ?svc')"
    by (simp add: p)
  also have "\<dots> = drop (length (locationHistory ?svc') + length rest - 50)
                      (locationHistory ?svc' @ map fixOf rest)"
    by (rule Cons.IH [OF len])
  also have "\<dots> = drop (length ?h + length (p # rest) - 50) (?h @ map fixOf (p # rest))"
  proof (cases "Suc (length ?h) \<le> 50")
    case True
    then show ?thesis unfolding h' by simp
  next
    case False
    then have k: "Suc (length ?h) - 50 \<le> length (?h @ [fixOf p])" by simp
    from False have l50: "length (drop (Suc (length ?h) - 50) (?h @ [fixOf p])) = 50" by simp
    have "drop (length ?h + length (p # rest) - 50) (?h @ map fixOf (p # rest)) =
          drop (length rest + (Suc (length ?h) - 50)) ((?h @ [fixOf p]) @ map fixOf rest)"
      using False by (simp add: add.commute)
    also have "\<dots> = drop (length rest) (drop (Suc (length ?h) - 50) ((?h @ [fixOf p]) @ map fixOf rest))"
      by (simp only: drop_drop)
    also have "drop (Suc (length ?h) - 50) ((?h @ [fixOf p]) @ map fixOf rest) =
               drop (Suc (length ?h) - 50) (?h @ [fixOf p]) @ map fixOf rest"
      using k by (simp only: drop_append) simp
    finally show ?thesis unfolding h' l50 by simp
  qed
  finally show ?case .
qed

text \<open>
  C6. The callback hands on the fix it built. Whatever the service held before,
  after a position is delivered the history has at most 50 entries. From the initial service, after any stream of positions
  the history is the fixes of the stream without all but its last 50, in arrival
  order (for 100 positions: the fixes 51 to 100).
\<close>

theorem history_bounded:
  "fst (onPosition c now svc) = fixOf (c, now) \<and>
   length (locationHistory (snd (onPosition c now svc))) \<le> 50 \<and>
   length (locationHistory (deliver ps initialLocationService)) \<le> 50 \<and>
   locationHistory (deliver ps initialLocationService) = drop (length ps - 50) (map fixOf ps)"
  using deliver_history [of initialLocationService ps]
  by (simp add: onPosition_bounded onPosition_fix initialLocationService_def)

section \<open>The geofence check\<close>

lemma calculateDistance_emergency_hav:
  "calculateDistance_emergency p q =
     6371000 * (2 * atan2 (sqrt (hav_a (latitude p) (longitude p) (latitude q) (longitude q)))
                          (sqrt (1 - hav_a (latitude p) (longitude p) (latitude q) (longitude q))))"
  by (simp add: calculateDistance_emergency_def hav_a_def Let_def)

lemma calculateDistance_emergency_arcsin:
  "calculateDistance_emergency p q =
     2 * 6371000 * arcsin (sqrt (hav_a (latitude p) (longitude p) (latitude q) (longitude q)))"
  by (simp add: calculateDistance_emergency_hav atan2_arcsin hav_a_nonneg hav_a_le_one)

lemma calculateDistance_agree:
  "calculateDistance p q =
     calculateDistance_emergency \<lparr>latitude = latitude p, longitude = longitude p\<rparr>
                                 \<lparr>latitude = latitude q, longitude = longitude q\<rparr>"
  by (simp add: calculateDistance_hav calculateDistance_emergency_hav)

lemma inside_centre:
  "latitude loc = lat area \<Longrightarrow> longitude loc = lng area \<Longrightarrow> 0 \<le> radius area \<Longrightarrow> inside loc area"
  by (simp add: inside_def calculateDistance_emergency_arcsin hav_a_same)

lemma hav_a_lower:
  assumes "1/2 \<le> sin ((lat2 - lat1) * pi / 360)" "1/2 \<le> cos ((lat1 + lat2) * pi / 360)"
  shows "1/4 \<le> hav_a lat1 lon1 lat2 lon2"
proof -
  define s where "s = (sin ((lon2 - lon1) * pi / 360))\<^sup>2"
  define x where "x = (sin ((lat2 - lat1) * pi / 360))\<^sup>2"
  define y where "y = (cos ((lat1 + lat2) * pi / 360))\<^sup>2"
  have s: "0 \<le> s" "s \<le> 1"
    by (simp_all add: s_def abs_square_le_1)
  have "(1/2)\<^sup>2 \<le> x" unfolding x_def using assms(1) by (intro power_mono) simp_all
  then have x: "1/4 \<le> x" by (simp add: power2_eq_square)
  have "(1/2)\<^sup>2 \<le> y" unfolding y_def using assms(2) by (intro power_mono) simp_all
  then have y: "1/4 \<le> y" by (simp add: power2_eq_square)
  define A where "A = (1 - s) * x"
  define B where "B = s * y"
  have f1: "(1 - s) / 4 \<le> A"
    unfolding A_def using mult_left_mono [OF x, of "1 - s"] s by simp
  have f2: "s / 4 \<le> B"
    unfolding B_def using mult_left_mono [OF y, of s] s by simp
  from f1 f2 have "1/4 \<le> A + B"
    by (simp add: field_simps)
  then have "1/4 \<le> (1 - s) * x + s * y"
    by (simp only: A_def B_def)
  then show ?thesis
    unfolding hav_a_convex s_def x_def y_def .
qed

lemma far_distance:
  assumes "1/4 \<le> hav_a (latitude p) (longitude p) (latitude q) (longitude q)"
  shows "4000000 < calculateDistance_emergency p q"
proof -
  let ?a = "hav_a (latitude p) (longitude p) (latitude q) (longitude q)"
  have "sqrt (1/4) \<le> sqrt ?a" using assms by (simp only: real_sqrt_le_iff)
  then have half: "1/2 \<le> sqrt ?a" by (simp add: real_sqrt_divide)
  have le1: "sqrt ?a \<le> 1" using hav_a_le_one [of "latitude p" "longitude p" "latitude q" "longitude q"] by simp
  have "arcsin (1/2) \<le> arcsin (sqrt ?a)"
    using half le1 by (intro arcsin_le_arcsin) simp_all
  then have "pi / 6 \<le> arcsin (sqrt ?a)" by simp
  moreover have "2 \<le> pi" by (rule pi_ge_two)
  ultimately have "1/3 \<le> arcsin (sqrt ?a)" by simp
  then show ?thesis by (simp add: calculateDistance_emergency_arcsin)
qed

lemma sin_ge_half: "pi / 6 \<le> x \<Longrightarrow> x \<le> pi / 2 \<Longrightarrow> 1/2 \<le> sin x"
  using sin_monotone_2pi_le [of "pi / 6" x] by (simp add: sin_30)

lemma cos_ge_half: "- (pi / 3) \<le> x \<Longrightarrow> x \<le> pi / 3 \<Longrightarrow> 1/2 \<le> cos x"
proof -
  assume a: "- (pi / 3) \<le> x" "x \<le> pi / 3"
  have "cos (pi / 3) \<le> cos \<bar>x\<bar>"
    using a by (intro cos_monotone_0_pi_le) (simp_all add: abs_le_iff)
  then show ?thesis by (simp add: cos_60)
qed

lemma farFix_outside: "\<not> violated farFix"
proof -
  have p: "0 < pi" by simp
  have a1: "1/4 \<le> hav_a (- 64.4212) 91.8933 25.5788 91.8933"
    by (rule hav_a_lower; (rule sin_ge_half cos_ge_half; use p in \<open>simp add: field_simps\<close>))
  have a2: "1/4 \<le> hav_a (- 64.4212) 91.8933 25.4670 91.3662"
    by (rule hav_a_lower; (rule sin_ge_half cos_ge_half; use p in \<open>simp add: field_simps\<close>))
  have d1: "\<not> inside farFix (restrictedAreas ! 0)"
    using far_distance [of "\<lparr>latitude = - 64.4212, longitude = 91.8933\<rparr>" "\<lparr>latitude = 25.5788, longitude = 91.8933\<rparr>"] a1
    by (simp add: inside_def farFix_def restrictedAreas_def)
  have d2: "\<not> inside farFix (restrictedAreas ! 1)"
    using far_distance [of "\<lparr>latitude = - 64.4212, longitude = 91.8933\<rparr>" "\<lparr>latitude = 25.4670, longitude = 91.3662\<rparr>"] a2
    by (simp add: inside_def farFix_def restrictedAreas_def)
  show ?thesis using d1 d2 by (simp add: violated_def restrictedAreas_def)
qed

lemma zoneCentre_inside: "violated zoneCentre"
  by (simp add: violated_def restrictedAreas_def inside_centre zoneCentre_def)

lemma checkAreas_find:
  "checkAreas e loc areas s =
     (case find (inside loc) areas of
        None \<Rightarrow> Returned (False, s)
      | Some area \<Rightarrow>
          (case triggerGeofenceAlert e (areaName area) loc s of
             Threw \<Rightarrow> Threw
           | Returned s' \<Rightarrow> Returned (True, s')))"
  by (induction areas) (simp_all add: inside_def Let_def)

text \<open>
  C10. One call of the geofence check, over any list of areas: the first area of
  the list that contains the fix decides. When the warning goes through, exactly
  one geofence dialog, naming that area, is shown and the result is true; areas
  later in the list are not looked at. When no area contains the fix, the service
  is unchanged and the result is false; when the warning throws, no dialog is shown,
  the console gets the error line and the result is false. The exported check is
  this one on the two configured areas.
\<close>

theorem geofence_first_match:
  "checkGeofenceViolation_areas areas e loc s =
     (case find (inside loc) areas of
        None \<Rightarrow> (False, s)
      | Some area \<Rightarrow>
          if hapticsOk e \<and> dialogOk e
          then (True, showDialog (geofenceDialog (areaName area)) s)
          else (False, writeConsole [ErrorCheckingGeofence] s)) \<and>
   checkGeofenceViolation e loc s = checkGeofenceViolation_areas restrictedAreas e loc s"
  by (simp add: checkGeofenceViolation_areas_def checkGeofenceViolation_def checkAreas_find
      triggerGeofenceAlert_def split: option.split)

text \<open>Two areas that both contain the fix: only the first one is announced.\<close>

lemma overlapping_areas_first_only:
  "checkGeofenceViolation_areas
     [\<lparr>lat = 0, lng = 0, radius = 1000, areaName = ''A''\<rparr>,
      \<lparr>lat = 0, lng = 0, radius = 2000, areaName = ''B''\<rparr>]
     workingEnv equatorFix initialEmergencyService =
   (True, showDialog (geofenceDialog ''A'') initialEmergencyService)"
  by (simp add: checkGeofenceViolation_areas_def triggerGeofenceAlert_def workingEnv_def
      equatorFix_def calculateDistance_emergency_def atan2_def)

lemma find_list_ex: "(find P xs = None) = (\<not> list_ex P xs)"
  by (induction xs) simp_all

lemma workingEnv_ok: "hapticsOk workingEnv" "dialogOk workingEnv"
  by (simp_all add: workingEnv_def)

lemma rejectingHapticsEnv_fails: "\<not> hapticsOk rejectingHapticsEnv"
  by (simp add: rejectingHapticsEnv_def)

lemma geofenceAlerts_initial: "geofenceAlerts initialEmergencyService = []"
  by (simp add: geofenceAlerts_def initialEmergencyService_def)

lemma checkGeofenceViolation_result:
  "fst (checkGeofenceViolation e loc s) = (hapticsOk e \<and> dialogOk e \<and> violated loc)"
proof (cases "find (inside loc) restrictedAreas")
  case None
  then show ?thesis
    using find_list_ex [of "inside loc" restrictedAreas]
    by (simp add: checkGeofenceViolation_areas_def checkGeofenceViolation_def checkAreas_find
        violated_def)
next
  case (Some area)
  then show ?thesis
    using find_list_ex [of "inside loc" restrictedAreas]
    by (simp add: checkGeofenceViolation_areas_def checkGeofenceViolation_def checkAreas_find
        triggerGeofenceAlert_def violated_def)
qed

lemma geofenceAlerts_step:
  "geofenceAlerts (snd (checkGeofenceViolation e loc s)) =
     (if hapticsOk e \<and> dialogOk e \<and> violated loc
      then geofenceAlerts s @ [geofenceDialog (areaName (the (find (inside loc) restrictedAreas)))]
      else geofenceAlerts s)"
proof (cases "find (inside loc) restrictedAreas")
  case None
  then show ?thesis
    using find_list_ex [of "inside loc" restrictedAreas]
    by (simp add: checkGeofenceViolation_areas_def checkGeofenceViolation_def checkAreas_find
        violated_def)
next
  case (Some area)
  then show ?thesis
    using find_list_ex [of "inside loc" restrictedAreas]
    by (simp add: checkGeofenceViolation_areas_def checkGeofenceViolation_def checkAreas_find
        triggerGeofenceAlert_def violated_def geofenceAlerts_def showDialog_def
        writeConsole_def geofenceDialog_def)
qed

text \<open>
  C1, as the code has it. The check keeps no memory of earlier fixes: while the
  warning calls succeed, every fix inside a restricted area raises one geofence
  alert, so after a sequence of fixes the number of new alerts is the number of
  fixes that were inside an area. Two consecutive fixes inside the same zone give
  two alerts; a fix outside gives none and a fix back inside gives one more.
\<close>

theorem geofence_alert_per_fix:
  "hapticsOk e \<Longrightarrow> dialogOk e \<Longrightarrow>
   length (geofenceAlerts (checkAll e locs s)) =
     length (geofenceAlerts s) + length (filter violated locs)"
  by (induction locs arbitrary: s) (simp_all add: geofenceAlerts_step)

text \<open>
  C1, as stated (no repeat alert while the tourist stays inside a zone: two
  consecutive fixes inside produce exactly one alert), fails: two fixes at the
  centre of the first zone produce two alerts.
\<close>

theorem geofence_dedup_counterexample:
  "length (geofenceAlerts (checkAll workingEnv [zoneCentre, zoneCentre] initialEmergencyService)) = 2"
  using zoneCentre_inside
  by (simp add: geofenceAlerts_step workingEnv_ok geofenceAlerts_initial)

theorem geofence_alert_per_fix_witness:
  "hapticsOk workingEnv \<and> dialogOk workingEnv \<and>
   length (geofenceAlerts (checkAll workingEnv [zoneCentre, zoneCentre] initialEmergencyService)) = 2 \<and>
   length (geofenceAlerts (checkAll workingEnv [zoneCentre, farFix, zoneCentre] initialEmergencyService)) = 2"
  using geofence_alert_per_fix [of workingEnv "[zoneCentre, zoneCentre]" initialEmergencyService]
        geofence_alert_per_fix [of workingEnv "[zoneCentre, farFix, zoneCentre]" initialEmergencyService]
        zoneCentre_inside farFix_outside
  by (simp add: workingEnv_ok geofenceAlerts_initial)

text \<open>
  C7, as the code has it. When the haptic call and the dialog succeed, a fix is
  reported as violated exactly when it is within the radius of some configured
  area; a fix at the exact centre of a configured area is. A fix outside every
  area is reported as not violated whatever the platform does, and so is every
  fix when the warning throws.
\<close>

theorem geofence_violation_predicate:
  "(hapticsOk e \<and> dialogOk e \<longrightarrow> fst (checkGeofenceViolation e loc s) = violated loc) \<and>
   (hapticsOk e \<and> dialogOk e \<and>
    list_ex (\<lambda>area. latitude loc = lat area \<and> longitude loc = lng area) restrictedAreas \<longrightarrow>
      fst (checkGeofenceViolation e loc s)) \<and>
   (\<not> violated loc \<longrightarrow> \<not> fst (checkGeofenceViolation e loc s)) \<and>
   (\<not> (hapticsOk e \<and> dialogOk e) \<longrightarrow> \<not> fst (checkGeofenceViolation e loc s))"
proof -
  have centre: "violated loc"
    if "list_ex (\<lambda>area. latitude loc = lat area \<and> longitude loc = lng area) restrictedAreas"
    using that by (auto simp add: violated_def restrictedAreas_def intro!: inside_centre)
  show ?thesis
    using centre by (auto simp add: checkGeofenceViolation_result)
qed

text \<open>
  C7, as stated (violated exactly when the distance to some zone centre is at most
  the radius), fails: at the exact centre of the first zone, with a haptic call
  that rejects, the check reports false.
\<close>

theorem geofence_violation_counterexample:
  "violated zoneCentre \<and>
   \<not> fst (checkGeofenceViolation rejectingHapticsEnv zoneCentre initialEmergencyService)"
  using zoneCentre_inside
  by (simp add: checkGeofenceViolation_result rejectingHapticsEnv_fails)

theorem geofence_violation_predicate_witness:
  "hapticsOk workingEnv \<and> dialogOk workingEnv \<and>
   latitude zoneCentre = lat (hd restrictedAreas) \<and>
   longitude zoneCentre = lng (hd restrictedAreas) \<and>
   radius (hd restrictedAreas) = 1000 \<and>
   fst (checkGeofenceViolation workingEnv zoneCentre initialEmergencyService) \<and>
   \<not> violated farFix \<and>
   \<not> fst (checkGeofenceViolation workingEnv farFix initialEmergencyService) \<and>
   \<not> hapticsOk rejectingHapticsEnv \<and>
   \<not> fst (checkGeofenceViolation rejectingHapticsEnv zoneCentre initialEmergencyService)"
  using geofence_violation_predicate [of workingEnv zoneCentre initialEmergencyService]
        geofence_violation_predicate [of workingEnv farFix initialEmergencyService]
        geofence_violation_predicate [of rejectingHapticsEnv zoneCentre initialEmergencyService]
        zoneCentre_inside farFix_outside
  by (simp add: workingEnv_ok rejectingHapticsEnv_fails restrictedAreas_def zoneCentre_def)

section \<open>The panic alert\<close>

lemma alertHistory_writeConsole [simp]: "alertHistory (writeConsole out s) = alertHistory s"
  by (simp add: writeConsole_def)

lemma alertHistory_showDialog [simp]: "alertHistory (showDialog d s) = alertHistory s"
  by (simp add: showDialog_def)

lemma alertHistory_sendEmergencyAlert [simp]:
  "alertHistory (sendEmergencyAlert e alert s) = alertHistory s"
  by (simp add: sendEmergencyAlert_def split: outcome.split option.split)

lemma alertHistory_notifyEmergencyContacts [simp]:
  "alertHistory (notifyEmergencyContacts e alert s) = alertHistory s"
  by (simp add: notifyEmergencyContacts_def)

lemma triggerPanicAlert_no_fix:
  assumes "fst (getCurrentLocation e) = None"
  shows "triggerPanicAlert msg e s =
           (False,
            if \<not> hapticsOk e then writeConsole [ErrorTriggeringPanicAlert] s
            else if dialogOk e
              then showDialog locationErrorDialog (writeConsole (snd (getCurrentLocation e)) s)
              else writeConsole (snd (getCurrentLocation e) @ [ErrorTriggeringPanicAlert]) s)"
  using assms by (cases "getCurrentLocation e") (simp add: triggerPanicAlert_def)

lemma triggerPanicAlert_fix:
  assumes "hapticsOk e" "fst (getCurrentLocation e) = Some loc"
  shows "triggerPanicAlert msg e s =
           (True,
            notifyEmergencyContacts e (panicAlert msg e loc s)
              (sendEmergencyAlert e (panicAlert msg e loc s)
                 ((writeConsole (snd (getCurrentLocation e)) s)
                    \<lparr>alertHistory := panicAlert msg e loc s # alertHistory s\<rparr>)))"
  using assms
  by (cases "getCurrentLocation e") (simp add: triggerPanicAlert_def panicAlert_def Let_def)

text \<open>
  C4. For every service state and platform: when the location fetch yields no fix,
  \<open>triggerPanicAlert\<close> returns false to the caller and the alert history is what
  it was; no alert is created.
\<close>

theorem trigger_location_unavailable:
  "fst (getCurrentLocation e) = None \<Longrightarrow>
   \<not> fst (triggerPanicAlert msg e s) \<and>
   alertHistory (snd (triggerPanicAlert msg e s)) = alertHistory s \<and>
   emergencyContacts (snd (triggerPanicAlert msg e s)) = emergencyContacts s \<and>
   (hapticsOk e \<and> dialogOk e \<longrightarrow>
      dialogs (snd (triggerPanicAlert msg e s)) = dialogs s @ [locationErrorDialog])"
  by (simp add: triggerPanicAlert_no_fix showDialog_def writeConsole_def)

lemma getCurrentLocation_denied: "fst (getCurrentLocation deniedEnv) = None"
  by (simp add: getCurrentLocation_def requestPermissions_def deniedEnv_def workingEnv_def)

theorem trigger_location_unavailable_witness:
  "fst (getCurrentLocation deniedEnv) = None \<and>
   hapticsOk deniedEnv \<and> dialogOk deniedEnv \<and>
   \<not> fst (triggerPanicAlert None deniedEnv initialEmergencyService) \<and>
   alertHistory (snd (triggerPanicAlert None deniedEnv initialEmergencyService)) = [] \<and>
   dialogs (snd (triggerPanicAlert None deniedEnv initialEmergencyService)) = [locationErrorDialog]"
proof -
  have ok: "hapticsOk deniedEnv" "dialogOk deniedEnv"
    by (simp_all add: deniedEnv_def workingEnv_def)
  have i: "alertHistory initialEmergencyService = []" "dialogs initialEmergencyService = []"
    by (simp_all add: initialEmergencyService_def)
  show ?thesis
    using trigger_location_unavailable [OF getCurrentLocation_denied, of None initialEmergencyService]
      ok i getCurrentLocation_denied
    by simp
qed

text \<open>
  C5, as the code has it. When the haptic call succeeds and a fix is obtained, the
  call returns true and the new alert is at the head of the alert history,
  whatever the storage and the dialog do. The returned value does not depend on
  them: a failed dispatch or notification is written to the console and is not
  reported to the caller.
\<close>

theorem local_durability:
  "hapticsOk e \<Longrightarrow> fst (getCurrentLocation e) = Some loc \<Longrightarrow>
   fst (triggerPanicAlert msg e s) \<and>
   alertHistory (snd (triggerPanicAlert msg e s)) = panicAlert msg e loc s # alertHistory s \<and>
   fst (triggerPanicAlert msg (e\<lparr>storedUser := u, storedToken := t, dialogOk := d\<rparr>) s) =
     fst (triggerPanicAlert msg e s)"
proof -
  assume h: "hapticsOk e" and l: "fst (getCurrentLocation e) = Some loc"
  let ?e = "e\<lparr>storedUser := u, storedToken := t, dialogOk := d\<rparr>"
  have r: "requestPermissions ?e = requestPermissions e"
    by (simp add: requestPermissions_def split: outcome.split)
  have g: "getCurrentLocation ?e = getCurrentLocation e"
    by (simp add: getCurrentLocation_def r Let_def
        split: prod.split bool.split outcome.split list.split)
  have h': "hapticsOk ?e" using h by simp
  have l': "fst (getCurrentLocation ?e) = Some loc" using l g by simp
  show ?thesis
    by (simp add: triggerPanicAlert_fix [OF h l] triggerPanicAlert_fix [OF h' l'])
qed

lemma getCurrentLocation_working:
  "getCurrentLocation workingEnv =
     (Some \<lparr>latitude = 25.5788, longitude = 91.8933, accuracy = Some 5, timestamp = 1000,
            address = None\<rparr>, [])"
  by (simp add: getCurrentLocation_def requestPermissions_def workingEnv_def num_or_undefined_def)

lemma getCurrentLocation_failingDispatch:
  "getCurrentLocation failingDispatchEnv = getCurrentLocation workingEnv"
  by (simp add: getCurrentLocation_def requestPermissions_def failingDispatchEnv_def workingEnv_def)

lemma failingDispatchEnv_fields:
  "hapticsOk failingDispatchEnv" "\<not> dialogOk failingDispatchEnv"
  "storedUser failingDispatchEnv = Threw"
  by (simp_all add: failingDispatchEnv_def workingEnv_def)

text \<open>Where the failures go: two lines on the console, after those of the location fetch.\<close>

lemma dispatch_failure_logged:
  assumes "hapticsOk e" "fst (getCurrentLocation e) = Some loc"
    and "storedUser e = Threw" "\<not> dialogOk e"
  shows "console (snd (triggerPanicAlert msg e s)) =
           console s @ snd (getCurrentLocation e) @
           [ErrorSendingEmergencyAlert, ErrorNotifyingContacts]"
    and "dialogs (snd (triggerPanicAlert msg e s)) = dialogs s"
  using assms(3,4)
  by (simp_all add: triggerPanicAlert_fix [OF assms(1,2)] notifyEmergencyContacts_def
      sendEmergencyAlert_def writeConsole_def)

text \<open>
  C5, as stated (the failure is reported to the caller as a partial-failure flag),
  fails: with a storage read and a dialog that throw, the caller receives the same
  value as when both succeed.
\<close>

theorem partial_failure_flag_counterexample:
  "storedUser failingDispatchEnv = Threw \<and> \<not> dialogOk failingDispatchEnv \<and>
   fst (triggerPanicAlert None failingDispatchEnv initialEmergencyService) =
     fst (triggerPanicAlert None workingEnv initialEmergencyService)"
  by (simp add: failingDispatchEnv_fields workingEnv_ok
      triggerPanicAlert_fix [where loc = "the (fst (getCurrentLocation workingEnv))"]
      getCurrentLocation_failingDispatch getCurrentLocation_working)

theorem local_durability_witness:
  "hapticsOk failingDispatchEnv \<and>
   fst (getCurrentLocation failingDispatchEnv) = Some workingFix \<and>
   fst (triggerPanicAlert None failingDispatchEnv initialEmergencyService) \<and>
   alertHistory (snd (triggerPanicAlert None failingDispatchEnv initialEmergencyService)) =
     [panicAlert None failingDispatchEnv workingFix initialEmergencyService]"
proof -
  have h: "hapticsOk failingDispatchEnv"
    by (rule failingDispatchEnv_fields)
  have l: "fst (getCurrentLocation failingDispatchEnv) = Some workingFix"
    by (simp add: getCurrentLocation_failingDispatch getCurrentLocation_working workingFix_def)
  have i: "alertHistory initialEmergencyService = []"
    by (simp add: initialEmergencyService_def)
  show ?thesis
    using local_durability [OF h l, of None initialEmergencyService] h l i by simp
qed

section \<open>The panic sequence\<close>

lemma panicState_Idle: "panicState s = Idle \<longleftrightarrow> \<not> emergencyActive s \<and> \<not> panicPressed s"
  by (simp add: panicState_def)

lemma resume_success:
  assumes "awaiting s = Suc n" "hapticsOk e" "fst (getCurrentLocation e) = Some loc"
  shows "emergencyActive (triggerEmergency_resume e s) = emergencyActive s"
    and "panicPressed (triggerEmergency_resume e s) = panicPressed s"
    and "awaiting (triggerEmergency_resume e s) = n"
    and "alertHistory (emergency (triggerEmergency_resume e s)) =
           panicAlert (Some ''Emergency assistance required - Panic button activated'') e loc (emergency s)
             # alertHistory (emergency s)"
  using assms
  by (simp_all add: triggerEmergency_resume_def triggerPanicAlert_fix [OF assms(2,3)])

lemma resume_failure:
  assumes "awaiting s = Suc n" "\<not> fst (triggerPanicAlert (Some ''Emergency assistance required - Panic button activated'') e (emergency s))"
  shows "\<not> emergencyActive (triggerEmergency_resume e s)"
  using assms
  by (cases "triggerPanicAlert (Some ''Emergency assistance required - Panic button activated'') e (emergency s)")
     (simp add: triggerEmergency_resume_def Let_def)

text \<open>
  C2. From an idle screen with nothing scheduled, \<open>startPanicSequence\<close> shows the
  counter 3 and schedules one interval, and each firing of it takes the counter
  down by one. The third firing clears the interval, makes the state Active and
  calls the alert manager once: one call is suspended, a further firing changes
  nothing, and when the alert manager obtains a fix the history gains exactly one
  alert, of type sos, and the state stays Active. A cancel after the start or
  after the first or second firing gives the idle state with counter 0, no
  interval scheduled, no reference kept, no call to the alert manager and the
  service untouched; releasing the button is that cancel.
\<close>

theorem panic_countdown_lifecycle:
  assumes "panicState s = Idle" "intervals s = []"
  shows
   "(let h = nextHandle s;
         s0 = startPanicSequence s;
         s1 = tick h s0;
         s2 = tick h s1;
         s3 = tick h s2
     in panicState s0 = CountingDown 3 \<and> intervals s0 = [(h, 3)] \<and> countdownRef s0 = Some h \<and>
        panicState s1 = CountingDown 2 \<and> intervals s1 = [(h, 2)] \<and>
        panicState s2 = CountingDown 1 \<and> intervals s2 = [(h, 1)] \<and>
        panicState s3 = Active \<and> countdown s3 = 0 \<and> intervals s3 = [] \<and>
        awaiting s3 = Suc (awaiting s) \<and> emergency s3 = emergency s \<and>
        tick h s3 = s3 \<and>
        (hapticsOk e \<and> fst (getCurrentLocation e) = Some loc \<longrightarrow>
           panicState (triggerEmergency_resume e s3) = Active \<and>
           awaiting (triggerEmergency_resume e s3) = awaiting s \<and>
           alertHistory (emergency (triggerEmergency_resume e s3)) =
             panicAlert (Some ''Emergency assistance required - Panic button activated'') e loc
               (emergency s) # alertHistory (emergency s)) \<and>
        list_all (\<lambda>c. panicState c = Idle \<and> countdown c = 0 \<and> intervals c = [] \<and>
                       countdownRef c = None \<and> awaiting c = awaiting s \<and>
                       emergency c = emergency s)
          [cancelPanicSequence s0, cancelPanicSequence s1, cancelPanicSequence s2] \<and>
        list_all (\<lambda>c. onPressOut c = cancelPanicSequence c) [s0, s1, s2])"
proof -
  from assms(1) have idle: "\<not> emergencyActive s" "\<not> panicPressed s"
    by (simp_all add: panicState_Idle)
  define s3 where "s3 = tick (nextHandle s) (tick (nextHandle s) (tick (nextHandle s) (startPanicSequence s)))"
  have s3: "s3 = s\<lparr>emergencyActive := True, panicPressed := False, countdown := 0,
                    intervals := [], nextHandle := Suc (nextHandle s),
                    countdownRef := Some (nextHandle s), awaiting := Suc (awaiting s)\<rparr>"
    using idle assms(2)
    by (simp add: s3_def startPanicSequence_def tick_def Let_def clearTimer_def triggerEmergency_def)
  have a3: "awaiting s3 = Suc (awaiting s)" "emergencyActive s3" "emergency s3 = emergency s"
    by (simp_all add: s3)
  have r: "hapticsOk e \<and> fst (getCurrentLocation e) = Some loc \<longrightarrow>
           panicState (triggerEmergency_resume e s3) = Active \<and>
           awaiting (triggerEmergency_resume e s3) = awaiting s \<and>
           alertHistory (emergency (triggerEmergency_resume e s3)) =
             panicAlert (Some ''Emergency assistance required - Panic button activated'') e loc
               (emergency s) # alertHistory (emergency s)"
    using resume_success [OF a3(1), of e loc] a3 by (simp add: panicState_def)
  have rest: "(let h = nextHandle s;
         s0 = startPanicSequence s;
         s1 = tick h s0;
         s2 = tick h s1;
         s3 = tick h s2
     in panicState s0 = CountingDown 3 \<and> intervals s0 = [(h, 3)] \<and> countdownRef s0 = Some h \<and>
        panicState s1 = CountingDown 2 \<and> intervals s1 = [(h, 2)] \<and>
        panicState s2 = CountingDown 1 \<and> intervals s2 = [(h, 1)] \<and>
        panicState s3 = Active \<and> countdown s3 = 0 \<and> intervals s3 = [] \<and>
        awaiting s3 = Suc (awaiting s) \<and> emergency s3 = emergency s \<and>
        tick h s3 = s3 \<and>
        list_all (\<lambda>c. panicState c = Idle \<and> countdown c = 0 \<and> intervals c = [] \<and>
                       countdownRef c = None \<and> awaiting c = awaiting s \<and>
                       emergency c = emergency s)
          [cancelPanicSequence s0, cancelPanicSequence s1, cancelPanicSequence s2] \<and>
        list_all (\<lambda>c. onPressOut c = cancelPanicSequence c) [s0, s1, s2])"
    using idle assms(2)
    by (simp add: startPanicSequence_def tick_def Let_def panicState_def
        clearTimer_def triggerEmergency_def cancelPanicSequence_def onPressOut_def)
  show ?thesis
    using rest r unfolding Let_def s3_def by blast
qed

lemma initialSafety_idle: "panicState initialSafety = Idle" "intervals initialSafety = []"
  "nextHandle initialSafety = 1" "emergency initialSafety = initialEmergencyService"
  by (simp_all add: initialSafety_def panicState_def)

theorem panic_countdown_lifecycle_witness:
  "panicState initialSafety = Idle \<and> intervals initialSafety = [] \<and>
   hapticsOk workingEnv \<and> fst (getCurrentLocation workingEnv) = Some workingFix \<and>
   panicState (tick 1 (tick 1 (tick 1 (startPanicSequence initialSafety)))) = Active \<and>
   awaiting (tick 1 (tick 1 (tick 1 (startPanicSequence initialSafety)))) = 1 \<and>
   map alertType (alertHistory (emergency (triggerEmergency_resume workingEnv
     (tick 1 (tick 1 (tick 1 (startPanicSequence initialSafety))))))) = [sos] \<and>
   panicState (cancelPanicSequence (tick 1 (startPanicSequence initialSafety))) = Idle \<and>
   intervals (cancelPanicSequence (tick 1 (startPanicSequence initialSafety))) = []"
proof -
  have l: "fst (getCurrentLocation workingEnv) = Some workingFix"
    by (simp add: getCurrentLocation_working workingFix_def)
  have a: "awaiting initialSafety = 0" "alertHistory initialEmergencyService = []"
    by (simp_all add: initialSafety_def initialEmergencyService_def)
  show ?thesis
    using panic_countdown_lifecycle [OF initialSafety_idle(1,2), of workingEnv workingFix]
      initialSafety_idle workingEnv_ok l a
    by (simp add: Let_def panicAlert_def)
qed

lemma countingDown2_eq:
  "countingDown2 = initialSafety\<lparr>panicPressed := True, countdown := 2, intervals := [(1, 2)],
                                 nextHandle := 2, countdownRef := Some 1\<rparr>"
  by (simp add: countingDown2_def onPress_def startPanicSequence_def tick_def Let_def
      initialSafety_def)

text \<open>
  C3. A start while the countdown runs should be a no-op: no second timer, no
  reset of the counter, no orphaned tick. The code does not do that. The press
  handler guards the Active state only, and \<open>startPanicSequence\<close> overwrites
  \<open>countdownRef\<close> without clearing the interval that is running: a press at
  counter 2 shows the counter 3 again and schedules a second timer, and the
  reference holds the second one only. The paths that clear the timer (the
  cancel on release, the cancel of an emergency, the cleanup at teardown) clear
  the referenced one, so each of them leaves the first timer scheduled; after
  the cancel on release the state is Idle, and the two remaining firings of the
  first timer make it Active and call the alert manager.
\<close>

theorem panic_restart_counterexample:
  "panicState countingDown2 = CountingDown 2 \<and>
   panicState (onPress countingDown2) = CountingDown 3 \<and>
   intervals (onPress countingDown2) = [(1, 2), (2, 3)] \<and>
   countdownRef (onPress countingDown2) = Some 2 \<and>
   intervals (cancelPanicSequence (onPress countingDown2)) = [(1, 2)] \<and>
   intervals (cancelEmergency (onPress countingDown2)) = [(1, 2)] \<and>
   intervals (unmount (onPress countingDown2)) = [(1, 2)] \<and>
   panicState (cancelPanicSequence (onPress countingDown2)) = Idle \<and>
   panicState (tick 1 (tick 1 (cancelPanicSequence (onPress countingDown2)))) = Active \<and>
   awaiting (tick 1 (tick 1 (cancelPanicSequence (onPress countingDown2)))) = 1"
  by (simp add: countingDown2_eq onPress_def startPanicSequence_def tick_def Let_def
      initialSafety_def panicState_def cancelPanicSequence_def cancelEmergency_def
      unmount_def clearTimer_def triggerEmergency_def)

end
